theory Spec2Isabelle
  imports Main "HOL-Library.Char_ord" "HOL-Library.List_Lexorder"
begin

section \<open>The event service of src/src/services/eventService.js\<close>

text \<open>
  The service is a JavaScript class whose methods read and write the browser's storage,
  talk to a REST backend through axios and insert rows through the supabase client.
  Every method becomes a function from the world before the call to a result and the
  world after it. A thrown exception is the \<open>Inl\<close> of a sum, a returned value its
  \<open>Inr\<close>.
\<close>

subsection \<open>Values\<close>

text \<open>
  Data that has passed through \<^verbatim>\<open>JSON.parse\<close> (the stored texts, the bodies of the
  HTTP responses) and the plain data the callers pass in. Numbers are restricted to
  integers: the code never computes with them, it only tests them for truthiness and
  compares them with \<^verbatim>\<open>===\<close>. An object is the list of its own properties in
  insertion order. The value \<^verbatim>\<open>undefined\<close> is not JSON: it only arises as the result of
  reading a property, and is the \<open>None\<close> of \<open>json option\<close>.
\<close>

datatype json =
    JNull
  | JBool bool
  | JNum int
  | JStr string
  | JArr "json list"
  | JObj "(string \<times> json) list"

datatype error =
    Error string        \<comment> \<open>\<^verbatim>\<open>new Error(message)\<close>\<close>
  | TypeError           \<comment> \<open>reading a property of null, calling what is not a function\<close>
  | SyntaxError         \<comment> \<open>\<^verbatim>\<open>JSON.parse\<close> of a text that is not JSON\<close>
  | AxiosError string   \<comment> \<open>the rejection of an axios request\<close>
  | StoreError string   \<comment> \<open>the \<^verbatim>\<open>error\<close> member of the supabase reply\<close>

text \<open>What \<^verbatim>\<open>getItem\<close> finds under a key: nothing, the empty text, a text that is
  not JSON, or a text that parses to a value.\<close>

datatype stored = NoItem | EmptyText | BadText | JsonText json

text \<open>The answer of the REST backend to one request: axios rejects (no connection,
  timeout, a status outside 2xx) or resolves with a response, of which the code only
  reads \<^verbatim>\<open>response.data\<close>, the parsed body.\<close>

datatype reply = Rejects string | Resolves json

text \<open>The answer of the relational store to one insert: an error, or the identifier
  and the time stamp that its column defaults assign to the new row.\<close>

datatype insert_reply = InsertError string | InsertOk string string

record world =
  useBackend :: bool             \<comment> \<open>\<^verbatim>\<open>this.useBackend\<close>\<close>
  mirror :: stored               \<comment> \<open>\<^verbatim>\<open>localStorage\<close> under \<^verbatim>\<open>this.storageKey\<close>\<close>
  local_user :: stored           \<comment> \<open>\<^verbatim>\<open>localStorage\<close> under \<^verbatim>\<open>'user'\<close>\<close>
  session_user :: stored         \<comment> \<open>\<^verbatim>\<open>sessionStorage\<close> under \<^verbatim>\<open>'user'\<close>\<close>
  net :: "reply list"            \<comment> \<open>the backend's answers to the requests still to come\<close>
  db :: "insert_reply list"      \<comment> \<open>the store's answers to the inserts still to come\<close>
  rows :: "json list"            \<comment> \<open>the rows written to the relational store, newest first\<close>
  now :: string                  \<comment> \<open>what \<^verbatim>\<open>new Date().toISOString()\<close> returns\<close>

subsection \<open>JavaScript operators\<close>

fun truthy :: "json \<Rightarrow> bool" where
  "truthy JNull = False"
| "truthy (JBool b) = b"
| "truthy (JNum n) = (n \<noteq> 0)"
| "truthy (JStr s) = (s \<noteq> [])"
| "truthy (JArr xs) = True"
| "truthy (JObj ps) = True"

definition truthy_opt :: "json option \<Rightarrow> bool" where
  "truthy_opt v = (case v of None \<Rightarrow> False | Some x \<Rightarrow> truthy x)"

definition js_or :: "json option \<Rightarrow> json \<Rightarrow> json" where
  \<comment> \<open>\<^verbatim>\<open>a || b\<close> with a JSON default \<^verbatim>\<open>b\<close>\<close>
  "js_or a b = (case a of None \<Rightarrow> b | Some x \<Rightarrow> if truthy x then x else b)"

text \<open>\<^verbatim>\<open>a === b\<close> where \<^verbatim>\<open>a\<close> was read from a freshly parsed record: primitives are
  compared by type and value; an array or object is a fresh reference, equal to nothing
  the caller holds; \<^verbatim>\<open>undefined\<close> equals no JSON value.\<close>

fun strict_eq :: "json option \<Rightarrow> json \<Rightarrow> bool" where
  "strict_eq (Some JNull) JNull = True"
| "strict_eq (Some (JBool a)) (JBool b) = (a = b)"
| "strict_eq (Some (JNum a)) (JNum b) = (a = b)"
| "strict_eq (Some (JStr a)) (JStr b) = (a = b)"
| "strict_eq _ _ = False"

text \<open>Reading a property by one of the names the service uses (\<^verbatim>\<open>id\<close>, \<^verbatim>\<open>data\<close>, the
  members of the creation input): an object looks it up, null throws, every other JSON
  value has no such property.\<close>

definition field :: "json \<Rightarrow> string \<Rightarrow> json option" where
  "field v k = (case v of JObj ps \<Rightarrow> map_of ps k | _ \<Rightarrow> None)"

definition get_prop :: "json \<Rightarrow> string \<Rightarrow> error + json option" where
  "get_prop v k = (if v = JNull then Inl TypeError else Inr (field v k))"

fun set_prop :: "string \<Rightarrow> json \<Rightarrow> (string \<times> json) list \<Rightarrow> (string \<times> json) list" where
  "set_prop k v [] = [(k, v)]"
| "set_prop k v (p # ps) = (if fst p = k then (k, v) # ps else p # set_prop k v ps)"

definition spread :: "(string \<times> json) list \<Rightarrow> (string \<times> json) list \<Rightarrow> (string \<times> json) list" where
  \<comment> \<open>\<^verbatim>\<open>{...target, ...source}\<close>: each property of the source is set in turn\<close>
  "spread target source = foldl (\<lambda>acc p. set_prop (fst p) (snd p) acc) target source"

definition own_props :: "json \<Rightarrow> (string \<times> json) list" where
  \<comment> \<open>the properties \<^verbatim>\<open>{...e}\<close> copies from a record; only an object can match an
      identifier, so no other value is ever spread\<close>
  "own_props e = (case e of JObj ps \<Rightarrow> ps | _ \<Rightarrow> [])"

subsection \<open>Array methods with the service's callbacks\<close>

text \<open>\<^verbatim>\<open>events.find(event => event.id === id)\<close>, \<^verbatim>\<open>findIndex\<close> and
  \<^verbatim>\<open>events.filter(event => event.id !== id)\<close>. The callback throws on a null
  element; \<open>find\<close> and \<open>findIndex\<close> stop at the first match.\<close>

fun find_by_id :: "json list \<Rightarrow> json \<Rightarrow> error + json option" where
  "find_by_id [] ident = Inr None"
| "find_by_id (e # es) ident =
     (case get_prop e ''id'' of
        Inl err \<Rightarrow> Inl err
      | Inr v \<Rightarrow> if strict_eq v ident then Inr (Some e) else find_by_id es ident)"

fun findIndex_by_id :: "json list \<Rightarrow> json \<Rightarrow> error + nat option" where
  "findIndex_by_id [] ident = Inr None"
| "findIndex_by_id (e # es) ident =
     (case get_prop e ''id'' of
        Inl err \<Rightarrow> Inl err
      | Inr v \<Rightarrow>
          if strict_eq v ident then Inr (Some 0)
          else (case findIndex_by_id es ident of
                  Inl err \<Rightarrow> Inl err
                | Inr None \<Rightarrow> Inr None
                | Inr (Some i) \<Rightarrow> Inr (Some (Suc i))))"

fun filter_out_id :: "json list \<Rightarrow> json \<Rightarrow> error + json list" where
  "filter_out_id [] ident = Inr []"
| "filter_out_id (e # es) ident =
     (case get_prop e ''id'' of
        Inl err \<Rightarrow> Inl err
      | Inr v \<Rightarrow>
          (case filter_out_id es ident of
             Inl err \<Rightarrow> Inl err
           | Inr rest \<Rightarrow> Inr (if strict_eq v ident then rest else e # rest)))"

text \<open>The methods exist on arrays only: on any other value the call is a TypeError.\<close>

definition events_find :: "json \<Rightarrow> json \<Rightarrow> error + json option" where
  "events_find events ident = (case events of JArr xs \<Rightarrow> find_by_id xs ident | _ \<Rightarrow> Inl TypeError)"

definition events_findIndex :: "json \<Rightarrow> json \<Rightarrow> error + nat option" where
  "events_findIndex events ident =
     (case events of JArr xs \<Rightarrow> findIndex_by_id xs ident | _ \<Rightarrow> Inl TypeError)"

definition events_filter :: "json \<Rightarrow> json \<Rightarrow> error + json list" where
  "events_filter events ident =
     (case events of JArr xs \<Rightarrow> filter_out_id xs ident | _ \<Rightarrow> Inl TypeError)"

definition events_unshift :: "json \<Rightarrow> json \<Rightarrow> error + json list" where
  "events_unshift events e = (case events of JArr xs \<Rightarrow> Inr (e # xs) | _ \<Rightarrow> Inl TypeError)"

subsection \<open>The collaborators\<close>

text \<open>One axios request consumes the backend's next answer; with no answer left the
  request fails as against a dead host.\<close>

definition axios :: "world \<Rightarrow> reply \<times> world" where
  "axios w = (case net w of
                [] \<Rightarrow> (Rejects ''Network Error'', w)
              | r # rs \<Rightarrow> (r, w\<lparr>net := rs\<rparr>))"

text \<open>\<^verbatim>\<open>eventsJson ? JSON.parse(eventsJson) : []\<close> on the mirror's text.\<close>

definition parse_mirror :: "world \<Rightarrow> error + json" where
  "parse_mirror w =
     (case mirror w of
        NoItem \<Rightarrow> Inr (JArr [])
      | EmptyText \<Rightarrow> Inr (JArr [])
      | BadText \<Rightarrow> Inl SyntaxError
      | JsonText v \<Rightarrow> Inr v)"

text \<open>\<^verbatim>\<open>localStorage.setItem(this.storageKey, JSON.stringify(events))\<close> for an array
  \<open>events\<close> of JSON values. The write is taken to succeed: the storage quota is not
  modelled.\<close>

definition save_mirror :: "json list \<Rightarrow> world \<Rightarrow> world" where
  "save_mirror events w = w\<lparr>mirror := JsonText (JArr events)\<rparr>"

text \<open>
  Modelled from the spec: the supabase client (\<^verbatim>\<open>src/lib/supabaseClient\<close>) and the database
  behind it are not among the sources.
  \<^verbatim>\<open>supabase.from('events').insert(row).select().single()\<close> "writes directly to the
  external relational store, requesting the store to assign defaults and return the
  persisted row". The persisted row holds the columns the service sends, as it sends
  them, and the columns it leaves to the defaults of the migration: \<^verbatim>\<open>id\<close>, a generated
  uuid, and \<^verbatim>\<open>created_at\<close> and \<^verbatim>\<open>updated_at\<close>, the time of the insert. The columns
  come in the order of the table.
\<close>

definition persisted_row :: "string \<Rightarrow> string \<Rightarrow> (string \<times> json) list \<Rightarrow> json" where
  "persisted_row uuid ts payload =
     JObj ((''id'', JStr uuid) # payload @ [(''created_at'', JStr ts), (''updated_at'', JStr ts)])"

text \<open>
  One insert consumes the store's next answer; with no answer left the store cannot be
  reached. The reply is the \<^verbatim>\<open>{data, error}\<close> the client resolves with: the service
  throws its \<^verbatim>\<open>error\<close> when there is one and goes on with its \<^verbatim>\<open>data\<close>, the
  persisted row, otherwise. An accepted insert adds that row to the store; a refused one
  writes nothing.
\<close>

definition supabase_insert :: "world \<Rightarrow> (string \<times> json) list \<Rightarrow> (error + json) \<times> world" where
  "supabase_insert w payload =
     (case db w of
        [] \<Rightarrow> (Inl (StoreError ''Failed to fetch''), w)
      | InsertError m # rs \<Rightarrow> (Inl (StoreError m), w\<lparr>db := rs\<rparr>)
      | InsertOk uuid ts # rs \<Rightarrow>
          (let row = persisted_row uuid ts payload
           in (Inr row, w\<lparr>db := rs, rows := row # rows w\<rparr>)))"

subsection \<open>The methods of EventService\<close>

definition checkBackendConnection :: "world \<Rightarrow> bool \<times> world" where
  "checkBackendConnection w =
     (case axios w of
        (Resolves body, w') \<Rightarrow> (True, w'\<lparr>useBackend := True\<rparr>)
      | (Rejects m, w') \<Rightarrow> (False, w'\<lparr>useBackend := False\<rparr>))"

text \<open>\<^verbatim>\<open>sessionStorage.getItem('user') || localStorage.getItem('user')\<close>: a missing or
  empty text is falsy.\<close>

definition storedUser :: "world \<Rightarrow> stored" where
  "storedUser w =
     (case session_user w of
        NoItem \<Rightarrow> local_user w
      | EmptyText \<Rightarrow> local_user w
      | s \<Rightarrow> s)"

definition getCurrentUserId :: "world \<Rightarrow> json option" where
  "getCurrentUserId w =
     (case storedUser w of
        NoItem \<Rightarrow> Some JNull
      | EmptyText \<Rightarrow> Some JNull
      | BadText \<Rightarrow> Some JNull
      | JsonText user \<Rightarrow>
          (case get_prop user ''id'' of
             Inl err \<Rightarrow> Some JNull
           | Inr v \<Rightarrow> v))"

definition getAllEvents :: "world \<Rightarrow> (error + json) \<times> world" where
  "getAllEvents w =
     (let w1 = snd (checkBackendConnection w) in
      case (if useBackend w1 then
              (case axios w1 of
                 (Rejects m, w2) \<Rightarrow> (Inl (AxiosError m), w2)
               | (Resolves body, w2) \<Rightarrow>
                   (case get_prop body ''data'' of
                      Inl err \<Rightarrow> (Inl err, w2)
                    | Inr d \<Rightarrow> (Inr (js_or d (JArr [])), w2)))
            else (parse_mirror w1, w1)) of
        (Inr events, w') \<Rightarrow> (Inr events, w')
      | (Inl err, w') \<Rightarrow> (parse_mirror w', w'))"

definition getEventById :: "world \<Rightarrow> json \<Rightarrow> (error + json option) \<times> world" where
  "getEventById w ident =
     (let w1 = snd (checkBackendConnection w) in
      case (if useBackend w1 then
              (case axios w1 of
                 (Rejects m, w2) \<Rightarrow> (Inl (AxiosError m), w2)
               | (Resolves body, w2) \<Rightarrow> (get_prop body ''data'', w2))
            else
              (case getAllEvents w1 of
                 (Inl err, w2) \<Rightarrow> (Inl err, w2)
               | (Inr events, w2) \<Rightarrow> (events_find events ident, w2))) of
        (Inr found, w') \<Rightarrow> (Inr found, w')
      | (Inl err, w') \<Rightarrow> (Inr (Some JNull), w'))"

text \<open>The row \<^verbatim>\<open>createEvent\<close> hands to the store. The first property read throws when
  the creation input is null.\<close>

definition insert_payload :: "json \<Rightarrow> json \<Rightarrow> error + (string \<times> json) list" where
  "insert_payload userId eventData =
     (if eventData = JNull then Inl TypeError
      else Inr
        [(''user_id'', userId),
         (''event_name'', js_or (field eventData ''eventName'') (JStr [])),
         (''event_type'', js_or (field eventData ''eventType'') (JStr [])),
         (''description'', js_or (field eventData ''description'') (JStr [])),
         (''date'', js_or (field eventData ''date'') JNull),
         (''time'', js_or (field eventData ''time'') JNull),
         (''location'', js_or (field eventData ''location'') (JStr [])),
         (''city'', js_or (field eventData ''city'') (JStr [])),
         (''venue_type'', js_or (field eventData ''venueType'') (JStr [])),
         (''audience_size'', js_or (field eventData ''audienceSize'') (JNum 0)),
         (''duration'', js_or (field eventData ''duration'') (JStr []))])"

definition createEvent :: "world \<Rightarrow> json \<Rightarrow> (error + json) \<times> world" where
  "createEvent w eventData =
     (case getCurrentUserId w of
        None \<Rightarrow> (Inl (Error ''User not authenticated''), w)
      | Some userId \<Rightarrow>
          if \<not> truthy userId then (Inl (Error ''User not authenticated''), w)
          else
            (case insert_payload userId eventData of
               Inl err \<Rightarrow> (Inl err, w)
             | Inr payload \<Rightarrow>
                 (case supabase_insert w payload of
                    (Inl err, w1) \<Rightarrow> (Inl err, w1)
                  | (Inr newEvent, w1) \<Rightarrow>
                      (case getAllEvents w1 of
                         (Inl err, w2) \<Rightarrow> (Inl err, w2)
                       | (Inr events, w2) \<Rightarrow>
                           (case events_unshift events newEvent of
                              Inl err \<Rightarrow> (Inl err, w2)
                            | Inr events' \<Rightarrow> (Inr newEvent, save_mirror events' w2))))))"

text \<open>In the live branch \<^verbatim>\<open>events[index] = updatedEvent\<close> may store \<^verbatim>\<open>undefined\<close>,
  which \<^verbatim>\<open>JSON.stringify\<close> writes as null. The patch \<open>updates\<close> is an object, given
  by its properties.\<close>

definition updateEvent ::
  "world \<Rightarrow> json \<Rightarrow> (string \<times> json) list \<Rightarrow> (error + json option) \<times> world" where
  "updateEvent w ident updates =
     (let w1 = snd (checkBackendConnection w) in
      if useBackend w1 then
        (case axios w1 of
           (Rejects m, w2) \<Rightarrow> (Inl (AxiosError m), w2)
         | (Resolves body, w2) \<Rightarrow>
             (case get_prop body ''data'' of
                Inl err \<Rightarrow> (Inl err, w2)
              | Inr updatedEvent \<Rightarrow>
                  (case getAllEvents w2 of
                     (Inl err, w3) \<Rightarrow> (Inl err, w3)
                   | (Inr events, w3) \<Rightarrow>
                       (case events_findIndex events ident of
                          Inl err \<Rightarrow> (Inl err, w3)
                        | Inr None \<Rightarrow> (Inr updatedEvent, w3)
                        | Inr (Some i) \<Rightarrow>
                            (case events of
                               JArr xs \<Rightarrow>
                                 (Inr updatedEvent,
                                  save_mirror
                                    (xs[i := (case updatedEvent of None \<Rightarrow> JNull | Some u \<Rightarrow> u)]) w3)
                             | _ \<Rightarrow> (Inl TypeError, w3))))))
      else
        (case getAllEvents w1 of
           (Inl err, w2) \<Rightarrow> (Inl err, w2)
         | (Inr events, w2) \<Rightarrow>
             (case events_findIndex events ident of
                Inl err \<Rightarrow> (Inl err, w2)
              | Inr None \<Rightarrow> (Inl (Error ''Event not found''), w2)
              | Inr (Some i) \<Rightarrow>
                  (case events of
                     JArr xs \<Rightarrow>
                       (let merged = JObj (set_prop ''updatedAt'' (JStr (now w2))
                                             (spread (own_props (xs ! i)) updates))
                        in (Inr (Some merged), save_mirror (xs[i := merged]) w2))
                   | _ \<Rightarrow> (Inl TypeError, w2)))))"

definition deleteEvent :: "world \<Rightarrow> json \<Rightarrow> (error + bool) \<times> world" where
  "deleteEvent w ident =
     (let w1 = snd (checkBackendConnection w) in
      case (if useBackend w1 then
              (case axios w1 of
                 (Rejects m, w2) \<Rightarrow> (Some (AxiosError m), w2)
               | (Resolves body, w2) \<Rightarrow> (None, w2))
            else (None, w1)) of
        (Some err, w2) \<Rightarrow> (Inl err, w2)
      | (None, w2) \<Rightarrow>
          (case getAllEvents w2 of
             (Inl err, w3) \<Rightarrow> (Inl err, w3)
           | (Inr events, w3) \<Rightarrow>
               (case events_filter events ident of
                  Inl err \<Rightarrow> (Inl err, w3)
                | Inr filteredEvents \<Rightarrow> (Inr True, save_mirror filteredEvents w3))))"

subsection \<open>Vocabulary of the properties\<close>

text \<open>The backend is unavailable when every request still to come is rejected.\<close>

fun rejected :: "reply \<Rightarrow> bool" where
  "rejected (Rejects m) = True"
| "rejected (Resolves body) = False"

definition backend_down :: "world \<Rightarrow> bool" where
  "backend_down w = list_all rejected (net w)"

text \<open>The world after one failed probe.\<close>

definition offline :: "world \<Rightarrow> world" where
  "offline w = w\<lparr>useBackend := False, net := tl (net w)\<rparr>"

text \<open>A record carries the identifier when its \<^verbatim>\<open>id\<close> is strictly equal to it.\<close>

definition has_id :: "json \<Rightarrow> json \<Rightarrow> bool" where
  "has_id e ident = strict_eq (field e ''id'') ident"

text \<open>The data model's mirror: no text yet, or the JSON text of an array.\<close>

definition mirror_ok :: "world \<Rightarrow> bool" where
  "mirror_ok w = (case parse_mirror w of Inr (JArr evs) \<Rightarrow> True | _ \<Rightarrow> False)"

text \<open>An exception on the live path of \<^verbatim>\<open>getAllEvents\<close>: the probe is answered, and then
  the list request gets no answer or a rejection, or its body is null, so that reading
  \<^verbatim>\<open>response.data.data\<close> throws.\<close>

definition live_path_raises :: "world \<Rightarrow> bool" where
  "live_path_raises w =
     (case net w of
        Resolves probe # [] \<Rightarrow> True
      | Resolves probe # Rejects m # rest \<Rightarrow> True
      | Resolves probe # Resolves body # rest \<Rightarrow> body = JNull
      | _ \<Rightarrow> False)"

text \<open>The REST contract of \<^verbatim>\<open>GET /events\<close>: the envelope \<^verbatim>\<open>{data: <list>}\<close>. A live
  answer to the list request honours it when its \<^verbatim>\<open>data\<close> is an array or falsy.\<close>

definition list_contract :: "world \<Rightarrow> bool" where
  "list_contract w =
     (case net w of
        Resolves probe # Resolves body # rest \<Rightarrow>
          (case field body ''data'' of
             None \<Rightarrow> True
           | Some (JArr xs) \<Rightarrow> True
           | Some v \<Rightarrow> \<not> truthy v)
      | _ \<Rightarrow> True)"

text \<open>Time stamps are the texts of \<^verbatim>\<open>toISOString\<close>, which all have one format, so
  that the later instant is the greater text. The stamp of \<open>new\<close> is later than that of
  \<open>old\<close> when both have one and the order says so.\<close>

definition stamp_later :: "json \<Rightarrow> json \<Rightarrow> bool" where
  "stamp_later old new =
     (case (field old ''updatedAt'', field new ''updatedAt'') of
        (Some (JStr a), Some (JStr b)) \<Rightarrow> a < b
      | _ \<Rightarrow> False)"

subsection \<open>Example worlds\<close>

definition launch :: json where
  "launch = JObj [(''id'', JStr ''e1''), (''user_id'', JStr ''u1''),
                  (''event_name'', JStr ''Launch''), (''city'', JStr ''Pune''),
                  (''updatedAt'', JStr ''2025-01-02T00:00:00.000Z'')]"

definition meetup :: json where
  "meetup = JObj [(''id'', JStr ''e2''), (''user_id'', JStr ''u1''),
                  (''event_name'', JStr ''Meetup''), (''city'', JStr ''Goa'')]"

text \<open>A creation input that names the event and its audience, the row the service
  builds from it for the signed-in user, and the row the store persists.\<close>

definition gala :: json where
  "gala = JObj [(''id'', JStr ''e3''), (''user_id'', JStr ''u1''),
                (''event_name'', JStr ''Gala''), (''event_type'', JStr []),
                (''description'', JStr []), (''date'', JNull), (''time'', JNull),
                (''location'', JStr []), (''city'', JStr []), (''venue_type'', JStr []),
                (''audience_size'', JNum 50), (''duration'', JStr []),
                (''created_at'', JStr ''2025-10-26T07:26:38.000Z''),
                (''updated_at'', JStr ''2025-10-26T07:26:38.000Z'')]"

definition gala_input :: json where
  "gala_input = JObj [(''eventName'', JStr ''Gala''), (''audienceSize'', JNum 50)]"

definition gala_payload :: "(string \<times> json) list" where
  "gala_payload =
     [(''user_id'', JStr ''u1''), (''event_name'', JStr ''Gala''), (''event_type'', JStr []),
      (''description'', JStr []), (''date'', JNull), (''time'', JNull),
      (''location'', JStr []), (''city'', JStr []), (''venue_type'', JStr []),
      (''audience_size'', JNum 50), (''duration'', JStr [])]"

text \<open>A signed-in user, two mirrored events, no backend, a store that accepts the next
  insert.\<close>

definition home :: world where
  "home = \<lparr>useBackend = False,
            mirror = JsonText (JArr [launch, meetup]),
            local_user = JsonText (JObj [(''id'', JStr ''u1''), (''name'', JStr ''Asha'')]),
            session_user = NoItem,
            net = [],
            db = [InsertOk ''e3'' ''2025-10-26T07:26:38.000Z''],
            rows = [],
            now = ''2025-10-27T09:00:00.000Z''\<rparr>"

text \<open>Nobody is signed in.\<close>

definition signed_out :: world where
  "signed_out = home\<lparr>local_user := NoItem\<rparr>"

text \<open>The device clock is a day behind the stamp the first event carries.\<close>

definition clock_behind :: world where
  "clock_behind = home\<lparr>now := ''2025-01-01T00:00:00.000Z''\<rparr>"

text \<open>The first event after its city is patched under that clock.\<close>

definition launch_in_mumbai :: json where
  "launch_in_mumbai =
     JObj [(''id'', JStr ''e1''), (''user_id'', JStr ''u1''),
           (''event_name'', JStr ''Launch''), (''city'', JStr ''Mumbai''),
           (''updatedAt'', JStr ''2025-01-01T00:00:00.000Z'')]"

text \<open>The backend answers the probe, then rejects the next request.\<close>

definition backend_rejects :: world where
  "backend_rejects =
     home\<lparr>net := [Resolves (JObj [(''data'', JArr [])]),
                    Rejects ''Request failed with status code 500'']\<rparr>"

text \<open>The same backend, and a mirror whose text is not JSON.\<close>

definition garbled :: world where
  "garbled = backend_rejects\<lparr>mirror := BadText\<rparr>"

text \<open>The backend answers the probe and the next request, then goes away.\<close>

definition backend_accepts :: world where
  "backend_accepts =
     home\<lparr>net := [Resolves (JObj [(''data'', JArr [])]), Resolves (JObj [])]\<rparr>"

text \<open>The world a live update of the first event leaves when the backend's answer to the
  PUT has no \<^verbatim>\<open>data\<close>: the service writes \<^verbatim>\<open>undefined\<close> into the list, which the
  mirror keeps as null.\<close>

definition after_live_update :: world where
  "after_live_update = snd (updateEvent backend_accepts (JStr ''e1'') [(''city'', JStr ''Mumbai'')])"


section \<open>Basic facts\<close>

lemma offline_simps [simp]:
  "mirror (offline w) = mirror w" "now (offline w) = now w" "rows (offline w) = rows w"
  "db (offline w) = db w" "parse_mirror (offline w) = parse_mirror w"
  "useBackend (offline w) = False"
  by (simp_all add: offline_def parse_mirror_def)

lemma save_mirror_simps [simp]:
  "mirror (save_mirror evs w) = JsonText (JArr evs)"
  "parse_mirror (save_mirror evs w) = Inr (JArr evs)"
  "net (save_mirror evs w) = net w" "rows (save_mirror evs w) = rows w"
  by (simp_all add: save_mirror_def parse_mirror_def)

lemma has_id_not_null: "has_id e ident \<Longrightarrow> e \<noteq> JNull"
  by (auto simp: has_id_def field_def)

subsection \<open>A backend that is unavailable\<close>

lemma axios_down:
  "backend_down w \<Longrightarrow> \<exists>m. axios w = (Rejects m, w\<lparr>net := tl (net w)\<rparr>)"
  by (cases "net w"; cases "hd (net w)") (auto simp: axios_def backend_down_def)

lemma check_down:
  "backend_down w \<Longrightarrow> checkBackendConnection w = (False, offline w)"
  using axios_down[of w] by (auto simp: checkBackendConnection_def offline_def)

lemma backend_down_offline: "backend_down w \<Longrightarrow> backend_down (offline w)"
  by (cases "net w") (auto simp: backend_down_def offline_def)

lemma getAllEvents_down:
  "backend_down w \<Longrightarrow> getAllEvents w = (parse_mirror w, offline w)"
  by (auto simp: getAllEvents_def Let_def check_down split: sum.splits)

lemma getAllEvents_rejected:
  "list_all rejected n \<Longrightarrow> fst (getAllEvents (w\<lparr>net := n\<rparr>)) = parse_mirror w"
  by (simp add: getAllEvents_down backend_down_def parse_mirror_def)

subsection \<open>The array methods on a list of records\<close>

lemma find_by_id_first:
  "\<forall>x\<in>set pre. x \<noteq> JNull \<and> \<not> has_id x ident \<Longrightarrow> has_id e ident
   \<Longrightarrow> find_by_id (pre @ e # post) ident = Inr (Some e)"
  by (induction pre) (auto simp: get_prop_def has_id_def field_def)

lemma find_by_id_none:
  "\<forall>x\<in>set evs. x \<noteq> JNull \<and> \<not> has_id x ident \<Longrightarrow> find_by_id evs ident = Inr None"
  by (induction evs) (auto simp: get_prop_def has_id_def)

lemma findIndex_first:
  "\<forall>x\<in>set pre. x \<noteq> JNull \<and> \<not> has_id x ident \<Longrightarrow> has_id e ident
   \<Longrightarrow> findIndex_by_id (pre @ e # post) ident = Inr (Some (length pre))"
  by (induction pre) (auto simp: get_prop_def has_id_def field_def)

lemma findIndex_none:
  "\<forall>x\<in>set evs. x \<noteq> JNull \<and> \<not> has_id x ident \<Longrightarrow> findIndex_by_id evs ident = Inr None"
  by (induction evs) (auto simp: get_prop_def has_id_def)

lemma filter_out_id_records:
  "\<forall>x\<in>set evs. x \<noteq> JNull \<Longrightarrow>
   filter_out_id evs ident = Inr (filter (\<lambda>e. \<not> has_id e ident) evs)"
  by (induction evs) (auto simp: get_prop_def has_id_def)

lemma filter_out_id_result:
  "filter_out_id evs ident = Inr ys \<Longrightarrow>
   ys = filter (\<lambda>e. \<not> has_id e ident) evs \<and> (\<forall>x\<in>set evs. x \<noteq> JNull)"
  by (induction evs arbitrary: ys) (auto simp: get_prop_def has_id_def split: if_splits sum.splits)

lemma filter_absent: "\<forall>x\<in>set evs. \<not> has_id x ident \<Longrightarrow> filter (\<lambda>e. \<not> has_id e ident) evs = evs"
  by (induction evs) auto

subsection \<open>Object spread\<close>

lemma map_of_set_prop: "map_of (set_prop k v ps) = (map_of ps)(k \<mapsto> v)"
  by (induction ps) (auto simp: fun_eq_iff)

lemma map_of_spread:
  "distinct (map fst source) \<Longrightarrow>
   map_of (spread target source) k =
     (case map_of source k of Some v \<Rightarrow> Some v | None \<Rightarrow> map_of target k)"
  unfolding spread_def
proof (induction source arbitrary: target)
  case Nil
  then show ?case by simp
next
  case (Cons p source)
  then have "map_of source (fst p) = None"
    by (simp add: map_of_eq_None_iff)
  with Cons show ?case
    by (cases p) (auto simp: map_of_set_prop split: option.splits)
qed

lemma field_merged:
  assumes "has_id old ident" and "distinct (map fst updates)"
  shows "field (JObj (set_prop ''updatedAt'' stamp (spread (own_props old) updates))) k =
     (if k = ''updatedAt'' then Some stamp
      else (case map_of updates k of Some v \<Rightarrow> Some v | None \<Rightarrow> field old k))"
proof -
  from assms(1) obtain ps where old: "old = JObj ps"
    by (cases old) (auto simp: has_id_def field_def)
  show ?thesis unfolding old
    by (simp add: field_def own_props_def map_of_set_prop map_of_spread[OF assms(2)]
          split: option.splits)
qed

subsection \<open>The methods while the backend is unavailable\<close>

lemma getEventById_down:
  assumes d: "backend_down w" and p: "parse_mirror w = Inr events"
  shows "fst (getEventById w ident) =
     (case events_find events ident of Inl err \<Rightarrow> Inr (Some JNull) | Inr found \<Rightarrow> Inr found)"
proof -
  have c: "checkBackendConnection w = (False, offline w)" by (rule check_down[OF d])
  have g: "getAllEvents (offline w) = (Inr events, offline (offline w))"
    using getAllEvents_down[OF backend_down_offline[OF d]] p by simp
  show ?thesis unfolding getEventById_def by (simp add: c g split: sum.splits)
qed

lemma updateEvent_down:
  assumes d: "backend_down w" and p: "parse_mirror w = Inr (JArr xs)"
  shows "updateEvent w ident updates =
     (case findIndex_by_id xs ident of
        Inl err \<Rightarrow> (Inl err, offline (offline w))
      | Inr None \<Rightarrow> (Inl (Error ''Event not found''), offline (offline w))
      | Inr (Some i) \<Rightarrow>
          (let merged = JObj (set_prop ''updatedAt'' (JStr (now w))
                                (spread (own_props (xs ! i)) updates))
           in (Inr (Some merged), save_mirror (xs[i := merged]) (offline (offline w)))))"
proof -
  have c: "checkBackendConnection w = (False, offline w)" by (rule check_down[OF d])
  have g: "getAllEvents (offline w) = (Inr (JArr xs), offline (offline w))"
    using getAllEvents_down[OF backend_down_offline[OF d]] p by simp
  show ?thesis unfolding updateEvent_def
    by (simp add: c g events_findIndex_def split: sum.splits option.splits)
qed

lemma deleteEvent_down:
  assumes d: "backend_down w" and p: "parse_mirror w = Inr (JArr xs)"
  shows "deleteEvent w ident =
     (case filter_out_id xs ident of
        Inl err \<Rightarrow> (Inl err, offline (offline w))
      | Inr ys \<Rightarrow> (Inr True, save_mirror ys (offline (offline w))))"
proof -
  have c: "checkBackendConnection w = (False, offline w)" by (rule check_down[OF d])
  have g: "getAllEvents (offline w) = (Inr (JArr xs), offline (offline w))"
    using getAllEvents_down[OF backend_down_offline[OF d]] p by simp
  show ?thesis unfolding deleteEvent_def
    by (simp add: c g events_filter_def split: sum.splits)
qed

lemma check_useBackend [simp]:
  "checkBackendConnection (w\<lparr>useBackend := b\<rparr>) = checkBackendConnection w"
  by (simp add: checkBackendConnection_def axios_def split: list.splits reply.splits)

lemma getAllEvents_useBackend [simp]:
  "getAllEvents (w\<lparr>useBackend := b\<rparr>) = getAllEvents w"
  by (simp add: getAllEvents_def)

lemma getAllEvents_live:
  "net w = Resolves probe # Resolves body # rest \<Longrightarrow> body \<noteq> JNull \<Longrightarrow>
   fst (getAllEvents w) = Inr (js_or (field body ''data'') (JArr []))"
  by (simp add: getAllEvents_def Let_def checkBackendConnection_def axios_def get_prop_def)

lemma getAllEvents_fallback:
  "\<not> (\<exists>probe body rest. net w = Resolves probe # Resolves body # rest \<and> body \<noteq> JNull) \<Longrightarrow>
   fst (getAllEvents w) = parse_mirror w"
proof (cases "net w")
  case Nil
  then show ?thesis
    by (simp add: getAllEvents_def Let_def checkBackendConnection_def axios_def parse_mirror_def
        split: sum.splits stored.splits)
next
  case (Cons r rs)
  note outer = Cons
  assume no: "\<not> (\<exists>probe body rest. net w = Resolves probe # Resolves body # rest \<and> body \<noteq> JNull)"
  show ?thesis
  proof (cases r)
    case (Rejects m)
    with outer show ?thesis
      by (simp add: getAllEvents_def Let_def checkBackendConnection_def axios_def parse_mirror_def
          split: sum.splits stored.splits)
  next
    case (Resolves probe)
    show ?thesis
    proof (cases rs)
      case Nil
      with outer Resolves show ?thesis
        by (simp add: getAllEvents_def Let_def checkBackendConnection_def axios_def parse_mirror_def)
    next
      case (Cons r2 rest)
      show ?thesis
      proof (cases r2)
        case (Rejects m)
        with outer Resolves Cons show ?thesis
          by (simp add: getAllEvents_def Let_def checkBackendConnection_def axios_def parse_mirror_def)
      next
        case inner: (Resolves body)
        with no outer Resolves Cons have "body = JNull" by simp
        with outer Resolves Cons inner show ?thesis
          by (simp add: getAllEvents_def Let_def checkBackendConnection_def axios_def
              parse_mirror_def get_prop_def)
      qed
    qed
  qed
qed

lemma getAllEvents_mirror [simp]: "mirror (snd (getAllEvents w)) = mirror w"
  by (simp add: getAllEvents_def Let_def checkBackendConnection_def axios_def
      split: list.splits reply.splits sum.splits prod.splits)

subsection \<open>Deleting\<close>

lemma deleteEvent_success:
  assumes ok: "fst (deleteEvent w ident) = Inr ok"
  shows "\<exists>xs w3. ok = True \<and> (\<forall>x\<in>set xs. x \<noteq> JNull)
      \<and> snd (deleteEvent w ident) = save_mirror (filter (\<lambda>e. \<not> has_id e ident) xs) w3"
proof -
  define w1 where "w1 = snd (checkBackendConnection w)"
  define leg where "leg =
    (if useBackend w1 then
        (case axios w1 of
           (Rejects m, w2) \<Rightarrow> (Some (AxiosError m), w2)
         | (Resolves body, w2) \<Rightarrow> (None, w2))
      else (None, w1))"
  obtain r w2 where rw: "leg = (r, w2)" by (cases leg)
  obtain g w3 where list: "getAllEvents w2 = (g, w3)" by (cases "getAllEvents w2")
  have "deleteEvent w ident =
     (case leg of
        (Some err, w2) \<Rightarrow> (Inl err, w2)
      | (None, w2) \<Rightarrow>
          (case getAllEvents w2 of
             (Inl err, w3) \<Rightarrow> (Inl err, w3)
           | (Inr events, w3) \<Rightarrow>
               (case events_filter events ident of
                  Inl err \<Rightarrow> (Inl err, w3)
                | Inr filteredEvents \<Rightarrow> (Inr True, save_mirror filteredEvents w3))))"
    unfolding deleteEvent_def Let_def leg_def w1_def ..
  then have unfold: "deleteEvent w ident =
     (case r of
        Some err \<Rightarrow> (Inl err, w2)
      | None \<Rightarrow>
          (case g of
             Inl err \<Rightarrow> (Inl err, w3)
           | Inr events \<Rightarrow>
               (case events_filter events ident of
                  Inl err \<Rightarrow> (Inl err, w3)
                | Inr filteredEvents \<Rightarrow> (Inr True, save_mirror filteredEvents w3))))"
    by (simp add: rw list split: option.splits sum.splits)
  from ok unfold obtain events ys where
    res: "events_filter events ident = Inr ys" "deleteEvent w ident = (Inr True, save_mirror ys w3)"
    by (auto split: option.splits sum.splits)
  from res(1) obtain xs where xs: "events = JArr xs" "filter_out_id xs ident = Inr ys"
    by (auto simp: events_filter_def split: json.splits)
  from filter_out_id_result[OF xs(2)] res(2) ok show ?thesis by auto
qed

lemma deleteEvent_remote_rejects:
  "net w = Resolves probe # Rejects m # rest \<Longrightarrow>
   fst (deleteEvent w ident) = Inl (AxiosError m) \<and> mirror (snd (deleteEvent w ident)) = mirror w"
  by (simp add: deleteEvent_def Let_def checkBackendConnection_def axios_def)

lemma getAllEvents_useBackend_net [simp]:
  "getAllEvents (w\<lparr>useBackend := b, net := n\<rparr>) = getAllEvents (w\<lparr>net := n\<rparr>)"
proof -
  have "w\<lparr>useBackend := b, net := n\<rparr> = (w\<lparr>net := n\<rparr>)\<lparr>useBackend := b\<rparr>" by simp
  then show ?thesis by (simp only: getAllEvents_useBackend)
qed

lemma deleteEvent_remote_resolves:
  assumes "net w = Resolves probe # Resolves body # rest"
    and "fst (getAllEvents (w\<lparr>net := rest\<rparr>)) = Inr (JArr evs)"
    and "\<forall>x\<in>set evs. x \<noteq> JNull"
  shows "fst (deleteEvent w ident) = Inr True
         \<and> mirror (snd (deleteEvent w ident)) = JsonText (JArr (filter (\<lambda>e. \<not> has_id e ident) evs))"
proof -
  obtain w3 where g: "getAllEvents (w\<lparr>net := rest\<rparr>) = (Inr (JArr evs), w3)"
    using assms(2) by (cases "getAllEvents (w\<lparr>net := rest\<rparr>)") auto
  have "deleteEvent w ident =
          (Inr True, save_mirror (filter (\<lambda>e. \<not> has_id e ident) evs) w3)"
    unfolding deleteEvent_def Let_def checkBackendConnection_def axios_def
    by (simp add: assms(1) g events_filter_def filter_out_id_records[OF assms(3)])
  then show ?thesis by simp
qed

subsection \<open>Creating\<close>

lemma persisted_gala: "persisted_row ''e3'' ''2025-10-26T07:26:38.000Z'' gala_payload = gala"
  by (simp add: persisted_row_def gala_payload_def gala_def)


lemma persisted_row_id: "field (persisted_row uuid ts payload) ''id'' = Some (JStr uuid)"
  by (simp add: persisted_row_def field_def)


lemma supabase_insert_accepted:
  "db w = InsertOk uuid ts # rest \<Longrightarrow>
   supabase_insert w payload =
     (Inr (persisted_row uuid ts payload),
      w\<lparr>db := rest, rows := persisted_row uuid ts payload # rows w\<rparr>)"
  by (simp add: supabase_insert_def Let_def)




lemma createEvent_down:
  assumes uid: "getCurrentUserId w = Some uid" "truthy uid"
    and input: "insert_payload uid eventData = Inr payload"
    and store: "db w = InsertOk uuid ts # rest"
    and d: "backend_down w"
    and p: "parse_mirror w = Inr (JArr evs)"
  shows "\<exists>w'. createEvent w eventData = (Inr (persisted_row uuid ts payload), w')
           \<and> mirror w' = JsonText (JArr (persisted_row uuid ts payload # evs))
           \<and> backend_down w'"
proof -
  define row where "row = persisted_row uuid ts payload"
  define w1 where "w1 = w\<lparr>db := rest, rows := row # rows w\<rparr>"
  have ins: "supabase_insert w payload = (Inr row, w1)"
    unfolding row_def w1_def by (rule supabase_insert_accepted[OF store])
  have d1: "backend_down w1" using d by (simp add: backend_down_def w1_def)
  have p1: "parse_mirror w1 = Inr (JArr evs)" using p by (simp add: parse_mirror_def w1_def)
  have g: "getAllEvents w1 = (Inr (JArr evs), offline w1)"
    using getAllEvents_down[OF d1] p1 by simp
  have "createEvent w eventData = (Inr row, save_mirror (row # evs) (offline w1))"
    unfolding createEvent_def by (simp add: uid input ins g events_unshift_def)
  moreover have "backend_down (save_mirror (row # evs) (offline w1))"
    using backend_down_offline[OF d1] by (simp add: backend_down_def)
  ultimately show ?thesis unfolding row_def by auto
qed

subsection \<open>The array methods on a list with a null entry\<close>

lemma find_by_id_absent:
  "\<forall>x\<in>set evs. \<not> has_id x ident \<Longrightarrow>
   find_by_id evs ident = (if JNull \<in> set evs then Inl TypeError else Inr None)"
  by (induction evs) (auto simp: get_prop_def has_id_def)

lemma find_by_id_null_first:
  "\<forall>x\<in>set pre. \<not> has_id x ident \<Longrightarrow> JNull \<in> set pre \<Longrightarrow>
   find_by_id (pre @ post) ident = Inl TypeError"
  by (induction pre) (auto simp: get_prop_def has_id_def)

lemma findIndex_absent:
  "\<forall>x\<in>set evs. \<not> has_id x ident \<Longrightarrow>
   findIndex_by_id evs ident = (if JNull \<in> set evs then Inl TypeError else Inr None)"
  by (induction evs) (auto simp: get_prop_def has_id_def)

lemma filter_out_id_null:
  "filter_out_id evs ident =
     (if JNull \<in> set evs then Inl TypeError else Inr (filter (\<lambda>e. \<not> has_id e ident) evs))"
  by (induction evs) (auto simp: get_prop_def has_id_def)

lemma after_live_update_mirror:
  "mirror after_live_update = JsonText (JArr [JNull, meetup])"
  by (simp add: after_live_update_def backend_accepts_def home_def updateEvent_def Let_def
      checkBackendConnection_def axios_def get_prop_def field_def getAllEvents_def
      parse_mirror_def events_findIndex_def launch_def save_mirror_def)

lemma after_live_update_down: "backend_down after_live_update"
  by (simp add: after_live_update_def backend_accepts_def home_def updateEvent_def Let_def
      checkBackendConnection_def axios_def get_prop_def field_def getAllEvents_def
      parse_mirror_def events_findIndex_def launch_def save_mirror_def backend_down_def)

lemma after_live_update_parsed:
  "parse_mirror after_live_update = Inr (JArr [JNull, meetup])"
  by (simp add: parse_mirror_def after_live_update_mirror)

subsection \<open>Reading the list on a mirror that parses\<close>

text \<open>On a mirror whose text is absent, empty or valid JSON every call of
  \<^verbatim>\<open>getAllEvents\<close> returns a value, whatever the backend does; an exception on the
  live path gives the content of the mirror, the empty list when there is no mirror; the
  value is a list when the mirror holds a list and the backend honours the contract of
  the list request.\<close>

lemma getAllEvents_readable_mirror:
  "(mirror w \<noteq> BadText \<longrightarrow> (\<exists>events w'. getAllEvents w = (Inr events, w')))
   \<and> (live_path_raises w \<longrightarrow> fst (getAllEvents w) = parse_mirror w)
   \<and> (live_path_raises w \<and> mirror w = NoItem \<longrightarrow> fst (getAllEvents w) = Inr (JArr []))
   \<and> (mirror_ok w \<and> list_contract w \<longrightarrow> (\<exists>xs. fst (getAllEvents w) = Inr (JArr xs)))"
proof -
  have raises: "fst (getAllEvents w) = parse_mirror w" if "live_path_raises w"
  proof (rule getAllEvents_fallback)
    show "\<not> (\<exists>probe body rest. net w = Resolves probe # Resolves body # rest \<and> body \<noteq> JNull)"
      using that by (auto simp: live_path_raises_def)
  qed
  have parses: "\<exists>v. parse_mirror w = Inr v" if "mirror w \<noteq> BadText"
    using that by (cases "mirror w") (simp_all add: parse_mirror_def)
  have returns: "\<exists>events. fst (getAllEvents w) = Inr events" if "mirror w \<noteq> BadText"
  proof (cases "\<exists>probe body rest. net w = Resolves probe # Resolves body # rest \<and> body \<noteq> JNull")
    case True
    then show ?thesis using getAllEvents_live by blast
  next
    case False
    then show ?thesis using getAllEvents_fallback[of w] parses[OF that] by auto
  qed
  have list: "\<exists>xs. fst (getAllEvents w) = Inr (JArr xs)" if "mirror_ok w" "list_contract w"
  proof (cases "\<exists>probe body rest. net w = Resolves probe # Resolves body # rest \<and> body \<noteq> JNull")
    case True
    then obtain probe body rest where n: "net w = Resolves probe # Resolves body # rest" "body \<noteq> JNull"
      by blast
    from that(2) n(1) have "\<exists>xs. js_or (field body ''data'') (JArr []) = JArr xs"
      by (auto simp: list_contract_def js_or_def split: option.splits json.splits)
    then show ?thesis using getAllEvents_live[OF n] by auto
  next
    case False
    then show ?thesis using getAllEvents_fallback[of w] that(1)
      by (auto simp: mirror_ok_def split: sum.splits json.splits)
  qed
  have "\<exists>events w'. getAllEvents w = (Inr events, w')" if "mirror w \<noteq> BadText"
    using returns[OF that] by (cases "getAllEvents w") auto
  moreover have "fst (getAllEvents w) = Inr (JArr [])" if "live_path_raises w" "mirror w = NoItem"
    using raises[OF that(1)] that(2) by (simp add: parse_mirror_def)
  ultimately show ?thesis using raises list by blast
qed

subsection \<open>The mirror stays a list\<close>

text \<open>Every write to the mirror is the text of an array, so a mirror that is absent or
  holds a list is absent or holds a list after any method, whatever the backend and the
  store answer.\<close>

lemma getAllEvents_mirrorD: "getAllEvents w = (r, w') \<Longrightarrow> mirror w' = mirror w"
  using getAllEvents_mirror[of w] by simp

lemma check_mirror [simp]: "mirror (snd (checkBackendConnection w)) = mirror w"
  by (simp add: checkBackendConnection_def axios_def split: list.splits reply.splits)

lemma axios_mirrorD: "axios w = (r, w') \<Longrightarrow> mirror w' = mirror w"
  by (auto simp: axios_def split: list.splits)

lemma supabase_insert_mirrorD: "supabase_insert w payload = (r, w') \<Longrightarrow> mirror w' = mirror w"
  by (auto simp: supabase_insert_def Let_def split: list.splits insert_reply.splits)

lemma mirror_ok_step:
  "mirror w' = mirror w \<or> (\<exists>evs. mirror w' = JsonText (JArr evs)) \<Longrightarrow> mirror_ok w \<Longrightarrow> mirror_ok w'"
  by (auto simp: mirror_ok_def parse_mirror_def)

lemma createEvent_mirror:
  "mirror (snd (createEvent w eventData)) = mirror w
   \<or> (\<exists>evs. mirror (snd (createEvent w eventData)) = JsonText (JArr evs))"
  unfolding createEvent_def
  by (auto split: option.splits sum.splits prod.splits
      dest!: supabase_insert_mirrorD getAllEvents_mirrorD)

lemma deleteEvent_mirror:
  "mirror (snd (deleteEvent w ident)) = mirror w
   \<or> (\<exists>evs. mirror (snd (deleteEvent w ident)) = JsonText (JArr evs))"
  unfolding deleteEvent_def Let_def
  by (auto split: option.splits sum.splits prod.splits reply.splits
      dest!: axios_mirrorD getAllEvents_mirrorD)

lemma updateEvent_mirror:
  "mirror (snd (updateEvent w ident updates)) = mirror w
   \<or> (\<exists>evs. mirror (snd (updateEvent w ident updates)) = JsonText (JArr evs))"
  unfolding updateEvent_def Let_def
  by (auto split: option.splits sum.splits prod.splits reply.splits json.splits
      dest!: axios_mirrorD getAllEvents_mirrorD)

lemma getEventById_mirror: "mirror (snd (getEventById w ident)) = mirror w"
  unfolding getEventById_def Let_def
  by (auto split: option.splits sum.splits prod.splits reply.splits
      dest!: axios_mirrorD getAllEvents_mirrorD)

lemma mirror_ok_preserved:
  "mirror_ok w \<Longrightarrow>
   mirror_ok (snd (getAllEvents w)) \<and> mirror_ok (snd (getEventById w ident))
   \<and> mirror_ok (snd (createEvent w eventData)) \<and> mirror_ok (snd (updateEvent w ident updates))
   \<and> mirror_ok (snd (deleteEvent w ident))"
  using createEvent_mirror[of w eventData] updateEvent_mirror[of w ident updates]
    deleteEvent_mirror[of w ident] getEventById_mirror[of w ident] getAllEvents_mirror[of w]
  by (auto intro: mirror_ok_step)

section \<open>The claims\<close>

text \<open>
  C1. When no identity can be resolved (\<^verbatim>\<open>getCurrentUserId\<close> returns null, or any other
  falsy value), \<^verbatim>\<open>createEvent\<close> throws the error 'User not authenticated' and leaves the
  world as it was: no row is written to the store and the mirror is unchanged.
\<close>

theorem createEvent_unauthenticated:
  "\<not> truthy_opt (getCurrentUserId w) \<Longrightarrow>
   createEvent w eventData = (Inl (Error ''User not authenticated''), w)
   \<and> rows (snd (createEvent w eventData)) = rows w
   \<and> mirror (snd (createEvent w eventData)) = mirror w"
  by (auto simp: createEvent_def truthy_opt_def split: option.splits)

theorem createEvent_unauthenticated_witness:
  "getCurrentUserId signed_out = Some JNull
   \<and> \<not> truthy_opt (getCurrentUserId signed_out)
   \<and> createEvent signed_out (JObj [(''eventName'', JStr ''Launch'')])
       = (Inl (Error ''User not authenticated''), signed_out)
   \<and> rows (snd (createEvent signed_out (JObj [(''eventName'', JStr ''Launch'')]))) = []
   \<and> mirror (snd (createEvent signed_out (JObj [(''eventName'', JStr ''Launch'')])))
       = JsonText (JArr [launch, meetup])"
proof -
  have u: "getCurrentUserId signed_out = Some JNull"
    by (simp add: signed_out_def home_def getCurrentUserId_def storedUser_def)
  then have h: "\<not> truthy_opt (getCurrentUserId signed_out)"
    by (simp add: truthy_opt_def)
  show ?thesis
    using u h createEvent_unauthenticated[OF h, of "JObj [(''eventName'', JStr ''Launch'')]"]
    by (simp add: signed_out_def home_def)
qed



text \<open>
  C3, as the code has it. \<^verbatim>\<open>getEventById\<close> never throws: in every world it returns a
  value. While the backend is unavailable and the mirror holds a list, it returns the
  first record that carries the identifier (the record with that identifier, identifiers
  being unique) when no entry before that record is null; when a null entry comes before
  any record that carries the identifier, the scan throws on it and the method returns
  null; when no entry carries the identifier it returns an absent value,
  \<^verbatim>\<open>undefined\<close> on a list with no null entry and null on a list with one.
\<close>

theorem getEventById_offline:
  "(\<exists>found w'. getEventById w ident = (Inr found, w'))
   \<and> (backend_down w \<and> parse_mirror w = Inr (JArr (pre @ e # post))
        \<and> (\<forall>x\<in>set pre. x \<noteq> JNull \<and> \<not> has_id x ident) \<and> has_id e ident
      \<longrightarrow> fst (getEventById w ident) = Inr (Some e))
   \<and> (backend_down w \<and> parse_mirror w = Inr (JArr evs)
        \<and> (\<forall>x\<in>set evs. x \<noteq> JNull \<and> \<not> has_id x ident)
      \<longrightarrow> fst (getEventById w ident) = Inr None)
   \<and> (backend_down w \<and> parse_mirror w = Inr (JArr (pre @ post))
        \<and> (\<forall>x\<in>set pre. \<not> has_id x ident) \<and> JNull \<in> set pre
      \<longrightarrow> fst (getEventById w ident) = Inr (Some JNull))
   \<and> (backend_down w \<and> parse_mirror w = Inr (JArr evs)
        \<and> (\<forall>x\<in>set evs. \<not> has_id x ident)
      \<longrightarrow> fst (getEventById w ident) = (if JNull \<in> set evs then Inr (Some JNull) else Inr None))"
proof -
  have guard: "\<exists>found w'. (case x of (Inr found, w') \<Rightarrow> (Inr found, w')
                                 | (Inl err, w') \<Rightarrow> (Inr (Some JNull), w')) = (Inr found, w')"
    for x :: "(error + json option) \<times> world"
    by (cases x; cases "fst x") auto
  have "\<exists>found w'. getEventById w ident = (Inr found, w')"
    unfolding getEventById_def Let_def by (rule guard)
  then show ?thesis
    by (auto simp: getEventById_down events_find_def find_by_id_first find_by_id_none
        find_by_id_null_first find_by_id_absent)
qed

theorem getEventById_offline_witness:
  "backend_down home
   \<and> parse_mirror home = Inr (JArr ([launch] @ meetup # []))
   \<and> launch \<noteq> JNull \<and> \<not> has_id launch (JStr ''e2'') \<and> has_id meetup (JStr ''e2'')
   \<and> fst (getEventById home (JStr ''e2'')) = Inr (Some meetup)
   \<and> meetup \<noteq> JNull \<and> \<not> has_id launch (JStr ''e9'') \<and> \<not> has_id meetup (JStr ''e9'')
   \<and> fst (getEventById home (JStr ''e9'')) = Inr None
   \<and> backend_down after_live_update
   \<and> parse_mirror after_live_update = Inr (JArr ([JNull] @ [meetup]))
   \<and> \<not> has_id JNull (JStr ''e2'') \<and> \<not> has_id JNull (JStr ''e9'')
   \<and> fst (getEventById after_live_update (JStr ''e2'')) = Inr (Some JNull)
   \<and> fst (getEventById after_live_update (JStr ''e9'')) = Inr (Some JNull)"
proof -
  have h1: "backend_down home" by (simp add: home_def backend_down_def)
  have h2: "parse_mirror home = Inr (JArr ([launch] @ meetup # []))"
    by (simp add: home_def parse_mirror_def)
  have h3: "launch \<noteq> JNull" "meetup \<noteq> JNull" by (simp_all add: launch_def meetup_def)
  have h4: "\<not> has_id launch (JStr ''e2'')" "has_id meetup (JStr ''e2'')"
    "\<not> has_id launch (JStr ''e9'')" "\<not> has_id meetup (JStr ''e9'')"
    "\<not> has_id JNull (JStr ''e2'')" "\<not> has_id JNull (JStr ''e9'')"
    by (simp_all add: has_id_def field_def launch_def meetup_def)
  have present: "fst (getEventById home (JStr ''e2'')) = Inr (Some meetup)"
    using getEventById_offline[where w = home and ident = "JStr ''e2''" and pre = "[launch]"
        and e = meetup and post = "[]"] h1 h2 h3 h4
    by simp
  have h2': "parse_mirror home = Inr (JArr [launch, meetup])" using h2 by simp
  have absent: "fst (getEventById home (JStr ''e9'')) = Inr None"
    using getEventById_offline[where w = home and ident = "JStr ''e9''"
        and evs = "[launch, meetup]"] h1 h2' h3 h4
    by simp
  have n1: "backend_down after_live_update" by (rule after_live_update_down)
  have n2: "parse_mirror after_live_update = Inr (JArr ([JNull] @ [meetup]))"
    by (simp add: after_live_update_parsed)
  have hidden: "fst (getEventById after_live_update (JStr ''e2'')) = Inr (Some JNull)"
    using getEventById_offline[where w = after_live_update and ident = "JStr ''e2''"
        and pre = "[JNull]" and post = "[meetup]"] n1 n2 h4
    by simp
  have n2': "parse_mirror after_live_update = Inr (JArr [JNull, meetup])"
    by (rule after_live_update_parsed)
  have nulled: "fst (getEventById after_live_update (JStr ''e9'')) = Inr (Some JNull)"
    using getEventById_offline[where w = after_live_update and ident = "JStr ''e9''"
        and evs = "[JNull, meetup]"] n1 n2' h4
    by simp
  show ?thesis using h1 h2 h3 h4 present absent n1 n2 hidden nulled by simp
qed

text \<open>The claim as the specification words it, that a record present in the mirror is
  always returned, fails on a mirror with a null entry before the record. The service
  writes such a mirror itself: a live update whose answer has no \<^verbatim>\<open>data\<close> stores null
  in place of the first event, and the second event can then no longer be read.\<close>

theorem getEventById_null_entry_counterexample:
  "mirror after_live_update = JsonText (JArr [JNull, meetup])
   \<and> backend_down after_live_update
   \<and> has_id meetup (JStr ''e2'')
   \<and> fst (getEventById after_live_update (JStr ''e2'')) = Inr (Some JNull)
   \<and> fst (getEventById after_live_update (JStr ''e2'')) \<noteq> Inr (Some meetup)"
proof -
  have h: "has_id meetup (JStr ''e2'')" by (simp add: has_id_def field_def meetup_def)
  have f: "find_by_id [JNull, meetup] (JStr ''e2'') = Inl TypeError"
    by (simp add: get_prop_def)
  have "fst (getEventById after_live_update (JStr ''e2'')) = Inr (Some JNull)"
    by (simp add: getEventById_down[OF after_live_update_down after_live_update_parsed]
        events_find_def f del: find_by_id.simps)
  moreover have "JNull \<noteq> meetup" by (simp add: meetup_def)
  ultimately show ?thesis using h after_live_update_mirror after_live_update_down by simp
qed

text \<open>
  C4, as the code has it. While the backend is unavailable, \<^verbatim>\<open>updateEvent\<close> with a patch
  object (its property names are distinct) replaces the first record that carries the
  identifier by that record with the fields of the patch overwritten and \<^verbatim>\<open>updatedAt\<close>
  set to the reading of the device clock; every other entry of the mirror stays as it
  was. The new stamp is later than the record's previous stamp exactly when the clock
  reads later than that stamp.
\<close>

theorem updateEvent_offline_merge:
  assumes "backend_down w"
    and "parse_mirror w = Inr (JArr (pre @ old # post))"
    and "\<forall>x\<in>set pre. x \<noteq> JNull \<and> \<not> has_id x ident"
    and "has_id old ident"
    and "distinct (map fst updates)"
  shows "\<exists>new w'. updateEvent w ident updates = (Inr (Some new), w')
           \<and> mirror w' = JsonText (JArr (pre @ new # post))
           \<and> (\<forall>k. field new k =
                  (if k = ''updatedAt'' then Some (JStr (now w))
                   else (case map_of updates k of Some v \<Rightarrow> Some v | None \<Rightarrow> field old k)))
           \<and> (\<forall>t. field old ''updatedAt'' = Some (JStr t) \<longrightarrow> stamp_later old new = (t < now w))"
proof -
  define new where
    "new = JObj (set_prop ''updatedAt'' (JStr (now w)) (spread (own_props old) updates))"
  have fields: "field new k =
      (if k = ''updatedAt'' then Some (JStr (now w))
       else (case map_of updates k of Some v \<Rightarrow> Some v | None \<Rightarrow> field old k))" for k
    unfolding new_def by (rule field_merged[OF assms(4,5)])
  have "updateEvent w ident updates =
          (Inr (Some new), save_mirror (pre @ new # post) (offline (offline w)))"
    by (simp add: updateEvent_down[OF assms(1,2)] findIndex_first[OF assms(3,4)] Let_def new_def)
  moreover have "stamp_later old new = (t < now w)" if "field old ''updatedAt'' = Some (JStr t)" for t
    using that fields[of "''updatedAt''"] by (simp add: stamp_later_def)
  ultimately show ?thesis using fields by auto
qed

theorem updateEvent_offline_merge_witness:
  "backend_down home
   \<and> parse_mirror home = Inr (JArr ([] @ launch # [meetup]))
   \<and> has_id launch (JStr ''e1'')
   \<and> distinct (map fst [(''city'', JStr ''Mumbai'')])
   \<and> (\<exists>new w'. updateEvent home (JStr ''e1'') [(''city'', JStr ''Mumbai'')] = (Inr (Some new), w')
         \<and> mirror w' = JsonText (JArr [new, meetup])
         \<and> field new ''city'' = Some (JStr ''Mumbai'')
         \<and> field new ''event_name'' = Some (JStr ''Launch'')
         \<and> field new ''updatedAt'' = Some (JStr ''2025-10-27T09:00:00.000Z'')
         \<and> stamp_later launch new)"
proof -
  have h1: "backend_down home" by (simp add: home_def backend_down_def)
  have h2: "parse_mirror home = Inr (JArr ([] @ launch # [meetup]))"
    by (simp add: home_def parse_mirror_def)
  have h3: "\<forall>x\<in>set []. x \<noteq> JNull \<and> \<not> has_id x (JStr ''e1'')" by simp
  have h4: "has_id launch (JStr ''e1'')" by (simp add: has_id_def field_def launch_def)
  have h5: "distinct (map fst [(''city'', JStr ''Mumbai'')])" by simp
  have old: "field launch ''updatedAt'' = Some (JStr ''2025-01-02T00:00:00.000Z'')"
    "field launch ''event_name'' = Some (JStr ''Launch'')"
    by (simp_all add: field_def launch_def)
  have clock: "now home = ''2025-10-27T09:00:00.000Z''" by (simp add: home_def)
  have later: "(''2025-01-02T00:00:00.000Z'' :: string) < ''2025-10-27T09:00:00.000Z''" by simp
  from updateEvent_offline_merge[OF h1 h2 h3 h4 h5] obtain new w' where
    r: "updateEvent home (JStr ''e1'') [(''city'', JStr ''Mumbai'')] = (Inr (Some new), w')"
       "mirror w' = JsonText (JArr ([] @ new # [meetup]))"
       "\<forall>k. field new k =
            (if k = ''updatedAt'' then Some (JStr (now home))
             else (case map_of [(''city'', JStr ''Mumbai'')] k of
                     Some v \<Rightarrow> Some v | None \<Rightarrow> field launch k))"
       "\<forall>t. field launch ''updatedAt'' = Some (JStr t) \<longrightarrow> stamp_later launch new = (t < now home)"
    by blast
  have f1: "field new ''city'' = Some (JStr ''Mumbai'')" using r(3) by simp
  have f2: "field new ''event_name'' = Some (JStr ''Launch'')" using r(3) old(2) by simp
  have f3: "field new ''updatedAt'' = Some (JStr ''2025-10-27T09:00:00.000Z'')"
    using r(3) clock by simp
  have f4: "stamp_later launch new" using r(4) old(1) clock later by simp
  from r(1,2) f1 f2 f3 f4 h1 h2 h4 h5 show ?thesis by auto
qed

text \<open>The claim as the specification words it, that the refreshed stamp is always later
  than the previous one, fails when the device clock is behind the stamp the record
  carries: the update moves \<^verbatim>\<open>updatedAt\<close> back.\<close>

theorem updateEvent_stamp_counterexample:
  "backend_down clock_behind
   \<and> parse_mirror clock_behind = Inr (JArr [launch, meetup])
   \<and> has_id launch (JStr ''e1'')
   \<and> fst (updateEvent clock_behind (JStr ''e1'') [(''city'', JStr ''Mumbai'')])
       = Inr (Some launch_in_mumbai)
   \<and> mirror (snd (updateEvent clock_behind (JStr ''e1'') [(''city'', JStr ''Mumbai'')]))
       = JsonText (JArr [launch_in_mumbai, meetup])
   \<and> field launch ''updatedAt'' = Some (JStr ''2025-01-02T00:00:00.000Z'')
   \<and> field launch_in_mumbai ''updatedAt'' = Some (JStr ''2025-01-01T00:00:00.000Z'')
   \<and> \<not> stamp_later launch launch_in_mumbai"
proof -
  have h1: "backend_down clock_behind" by (simp add: clock_behind_def home_def backend_down_def)
  have h2: "parse_mirror clock_behind = Inr (JArr [launch, meetup])"
    by (simp add: clock_behind_def home_def parse_mirror_def)
  have h4: "has_id launch (JStr ''e1'')" by (simp add: has_id_def field_def launch_def)
  have ix: "findIndex_by_id [launch, meetup] (JStr ''e1'') = Inr (Some 0)"
    by (simp add: launch_def get_prop_def field_def)
  have clock: "now clock_behind = ''2025-01-01T00:00:00.000Z''"
    by (simp add: clock_behind_def home_def)
  have merged: "JObj (set_prop ''updatedAt'' (JStr ''2025-01-01T00:00:00.000Z'')
                   (spread (own_props launch) [(''city'', JStr ''Mumbai'')])) = launch_in_mumbai"
    by (simp add: launch_def launch_in_mumbai_def own_props_def spread_def)
  have u: "updateEvent clock_behind (JStr ''e1'') [(''city'', JStr ''Mumbai'')] =
             (Inr (Some launch_in_mumbai),
              save_mirror [launch_in_mumbai, meetup] (offline (offline clock_behind)))"
    unfolding updateEvent_down[OF h1 h2] ix by (simp add: Let_def clock merged)
  have s: "field launch ''updatedAt'' = Some (JStr ''2025-01-02T00:00:00.000Z'')"
    "field launch_in_mumbai ''updatedAt'' = Some (JStr ''2025-01-01T00:00:00.000Z'')"
    by (simp_all add: field_def launch_def launch_in_mumbai_def)
  have "\<not> stamp_later launch launch_in_mumbai"
    by (simp add: stamp_later_def s)
  with h1 h2 h4 u s show ?thesis by simp
qed

text \<open>
  C5, as the code has it. While the backend is unavailable and the mirror holds a list no
  entry of which carries the identifier, \<^verbatim>\<open>updateEvent\<close> fails and leaves the mirror
  unchanged: with the error 'Event not found' when no entry of the list is null, with
  the TypeError of the scan when one is.
\<close>

theorem updateEvent_not_found:
  "backend_down w \<Longrightarrow> parse_mirror w = Inr (JArr evs) \<Longrightarrow>
   \<forall>x\<in>set evs. \<not> has_id x ident \<Longrightarrow>
   fst (updateEvent w ident updates)
     = (if JNull \<in> set evs then Inl TypeError else Inl (Error ''Event not found''))
   \<and> mirror (snd (updateEvent w ident updates)) = mirror w"
  by (simp add: updateEvent_down findIndex_absent)

theorem updateEvent_not_found_witness:
  "backend_down home
   \<and> parse_mirror home = Inr (JArr [launch, meetup])
   \<and> list_all (\<lambda>x. \<not> has_id x (JStr ''e9'')) [launch, meetup]
   \<and> JNull \<notin> set [launch, meetup]
   \<and> fst (updateEvent home (JStr ''e9'') [(''city'', JStr ''Mumbai'')]) = Inl (Error ''Event not found'')
   \<and> mirror (snd (updateEvent home (JStr ''e9'') [(''city'', JStr ''Mumbai'')]))
       = JsonText (JArr [launch, meetup])
   \<and> backend_down after_live_update
   \<and> parse_mirror after_live_update = Inr (JArr [JNull, meetup])
   \<and> list_all (\<lambda>x. \<not> has_id x (JStr ''e9'')) [JNull, meetup]
   \<and> fst (updateEvent after_live_update (JStr ''e9'') [(''city'', JStr ''Mumbai'')]) = Inl TypeError
   \<and> mirror (snd (updateEvent after_live_update (JStr ''e9'') [(''city'', JStr ''Mumbai'')]))
       = JsonText (JArr [JNull, meetup])"
proof -
  have h1: "backend_down home" by (simp add: home_def backend_down_def)
  have h2: "parse_mirror home = Inr (JArr [launch, meetup])"
    by (simp add: home_def parse_mirror_def)
  have h3: "\<forall>x\<in>set [launch, meetup]. \<not> has_id x (JStr ''e9'')"
    by (simp add: has_id_def field_def launch_def meetup_def)
  have h4: "JNull \<notin> set [launch, meetup]" by (simp add: launch_def meetup_def)
  have m: "mirror home = JsonText (JArr [launch, meetup])" by (simp add: home_def)
  have n3: "\<forall>x\<in>set [JNull, meetup]. \<not> has_id x (JStr ''e9'')"
    by (simp add: has_id_def field_def meetup_def)
  have a: "fst (updateEvent home (JStr ''e9'') [(''city'', JStr ''Mumbai'')]) = Inl (Error ''Event not found'')
     \<and> mirror (snd (updateEvent home (JStr ''e9'') [(''city'', JStr ''Mumbai'')])) = mirror home"
    using updateEvent_not_found[OF h1 h2 h3, of "[(''city'', JStr ''Mumbai'')]"] h4 by simp
  have b: "fst (updateEvent after_live_update (JStr ''e9'') [(''city'', JStr ''Mumbai'')]) = Inl TypeError
     \<and> mirror (snd (updateEvent after_live_update (JStr ''e9'') [(''city'', JStr ''Mumbai'')]))
         = mirror after_live_update"
    using updateEvent_not_found[OF after_live_update_down after_live_update_parsed n3,
        of "[(''city'', JStr ''Mumbai'')]"] by simp
  from a b h1 h2 h3 h4 m n3 after_live_update_down after_live_update_parsed after_live_update_mirror
  show ?thesis by simp
qed

text \<open>The claim as the specification words it, that an absent identifier always gets
  'Event not found', fails on the mirror the live update leaves: the scan throws on its
  null entry before it can report that nothing was found.\<close>

theorem updateEvent_null_entry_counterexample:
  "mirror after_live_update = JsonText (JArr [JNull, meetup])
   \<and> backend_down after_live_update
   \<and> \<not> has_id JNull (JStr ''e9'') \<and> \<not> has_id meetup (JStr ''e9'')
   \<and> fst (updateEvent after_live_update (JStr ''e9'') [(''city'', JStr ''Mumbai'')]) = Inl TypeError
   \<and> fst (updateEvent after_live_update (JStr ''e9'') [(''city'', JStr ''Mumbai'')])
       \<noteq> Inl (Error ''Event not found'')"
proof -
  have h: "\<not> has_id JNull (JStr ''e9'')" "\<not> has_id meetup (JStr ''e9'')"
    by (simp_all add: has_id_def field_def meetup_def)
  have f: "findIndex_by_id [JNull, meetup] (JStr ''e9'') = Inl TypeError"
    by (simp add: get_prop_def)
  have "fst (updateEvent after_live_update (JStr ''e9'') [(''city'', JStr ''Mumbai'')]) = Inl TypeError"
    unfolding updateEvent_down[OF after_live_update_down after_live_update_parsed] f by simp
  with h after_live_update_mirror after_live_update_down show ?thesis by simp
qed

text \<open>
  C6. Whenever \<^verbatim>\<open>deleteEvent\<close> completes, the mirror it leaves holds a list in which no
  record carries the identifier, and a later \<^verbatim>\<open>getAllEvents\<close>, the backend unavailable,
  returns that list.
\<close>

theorem deleteEvent_removes:
  "fst (deleteEvent w ident) = Inr ok \<Longrightarrow>
   \<exists>evs. mirror (snd (deleteEvent w ident)) = JsonText (JArr evs)
     \<and> (\<forall>e\<in>set evs. \<not> has_id e ident)
     \<and> (\<forall>n. list_all rejected n \<longrightarrow>
            fst (getAllEvents (snd (deleteEvent w ident)\<lparr>net := n\<rparr>)) = Inr (JArr evs))"
proof -
  assume "fst (deleteEvent w ident) = Inr ok"
  from deleteEvent_success[OF this] obtain xs w3 where
    s: "snd (deleteEvent w ident) = save_mirror (filter (\<lambda>e. \<not> has_id e ident) xs) w3"
    by blast
  let ?evs = "filter (\<lambda>e. \<not> has_id e ident) xs"
  have "mirror (snd (deleteEvent w ident)) = JsonText (JArr ?evs)" by (simp add: s)
  moreover have "\<forall>e\<in>set ?evs. \<not> has_id e ident" by simp
  moreover have "fst (getAllEvents (snd (deleteEvent w ident)\<lparr>net := n\<rparr>)) = Inr (JArr ?evs)"
    if "list_all rejected n" for n
    using getAllEvents_rejected[OF that, of "snd (deleteEvent w ident)"] by (simp add: s)
  ultimately show ?thesis by blast
qed

theorem deleteEvent_removes_witness:
  "fst (deleteEvent home (JStr ''e1'')) = Inr True
   \<and> mirror (snd (deleteEvent home (JStr ''e1''))) = JsonText (JArr [meetup])
   \<and> \<not> has_id meetup (JStr ''e1'')
   \<and> fst (getAllEvents (snd (deleteEvent home (JStr ''e1''))\<lparr>net := [Rejects ''timeout'']\<rparr>))
       = Inr (JArr [meetup])"
proof -
  have h1: "backend_down home" by (simp add: home_def backend_down_def)
  have h2: "parse_mirror home = Inr (JArr [launch, meetup])"
    by (simp add: home_def parse_mirror_def)
  have f: "filter_out_id [launch, meetup] (JStr ''e1'') = Inr [meetup]"
    by (simp add: get_prop_def field_def launch_def meetup_def)
  have d: "deleteEvent home (JStr ''e1'') = (Inr True, save_mirror [meetup] (offline (offline home)))"
    unfolding deleteEvent_down[OF h1 h2] f by simp
  then have ok: "fst (deleteEvent home (JStr ''e1'')) = Inr True" by simp
  from deleteEvent_removes[OF ok] obtain evs where
    r: "mirror (snd (deleteEvent home (JStr ''e1''))) = JsonText (JArr evs)"
       "\<forall>e\<in>set evs. \<not> has_id e (JStr ''e1'')"
       "\<forall>n. list_all rejected n \<longrightarrow>
            fst (getAllEvents (snd (deleteEvent home (JStr ''e1''))\<lparr>net := n\<rparr>)) = Inr (JArr evs)"
    by blast
  from r(1) d have e: "evs = [meetup]" by simp
  from r(3) have "fst (getAllEvents (snd (deleteEvent home (JStr ''e1''))\<lparr>net := [Rejects ''timeout'']\<rparr>))
       = Inr (JArr evs)" by simp
  with ok r(1,2) e show ?thesis by simp
qed

text \<open>
  C7, as the code has it. \<^verbatim>\<open>deleteEvent\<close> returns true, with the records that carry the
  identifier removed from the list it writes to the mirror, when the backend is
  unavailable and no remote delete is attempted, and also when the remote delete request
  resolves, whatever its response; the list is the one \<^verbatim>\<open>getAllEvents\<close> then reads, a
  list of records. When the backend answers the probe and rejects the remote delete,
  \<^verbatim>\<open>deleteEvent\<close> throws that rejection and the mirror keeps the entry.
\<close>

theorem deleteEvent_outcomes:
  "(net w = Resolves probe # Rejects m # rest
      \<longrightarrow> fst (deleteEvent w ident) = Inl (AxiosError m)
          \<and> mirror (snd (deleteEvent w ident)) = mirror w)
   \<and> (backend_down w \<and> parse_mirror w = Inr (JArr evs) \<and> (\<forall>x\<in>set evs. x \<noteq> JNull)
      \<longrightarrow> fst (deleteEvent w ident) = Inr True
          \<and> mirror (snd (deleteEvent w ident))
              = JsonText (JArr (filter (\<lambda>e. \<not> has_id e ident) evs)))
   \<and> (net w = Resolves probe # Resolves body # rest
        \<and> fst (getAllEvents (w\<lparr>net := rest\<rparr>)) = Inr (JArr evs) \<and> (\<forall>x\<in>set evs. x \<noteq> JNull)
      \<longrightarrow> fst (deleteEvent w ident) = Inr True
          \<and> mirror (snd (deleteEvent w ident))
              = JsonText (JArr (filter (\<lambda>e. \<not> has_id e ident) evs)))"
proof -
  have "fst (deleteEvent w ident) = Inr True
        \<and> mirror (snd (deleteEvent w ident)) = JsonText (JArr (filter (\<lambda>e. \<not> has_id e ident) evs))"
    if "backend_down w" "parse_mirror w = Inr (JArr evs)" "\<forall>x\<in>set evs. x \<noteq> JNull"
    by (simp add: deleteEvent_down[OF that(1,2)] filter_out_id_records[OF that(3)])
  then show ?thesis
    using deleteEvent_remote_rejects[of w probe m rest ident]
      deleteEvent_remote_resolves[of w probe body rest evs ident]
    by blast
qed

theorem deleteEvent_outcomes_witness:
  "net backend_rejects = [Resolves (JObj [(''data'', JArr [])]),
                          Rejects ''Request failed with status code 500'']
   \<and> fst (deleteEvent backend_rejects (JStr ''e1''))
       = Inl (AxiosError ''Request failed with status code 500'')
   \<and> mirror (snd (deleteEvent backend_rejects (JStr ''e1''))) = JsonText (JArr [launch, meetup])
   \<and> backend_down home \<and> parse_mirror home = Inr (JArr [launch, meetup])
   \<and> launch \<noteq> JNull \<and> meetup \<noteq> JNull
   \<and> fst (deleteEvent home (JStr ''e1'')) = Inr True
   \<and> mirror (snd (deleteEvent home (JStr ''e1''))) = JsonText (JArr [meetup])
   \<and> net backend_accepts = [Resolves (JObj [(''data'', JArr [])]), Resolves (JObj [])]
   \<and> fst (getAllEvents (backend_accepts\<lparr>net := []\<rparr>)) = Inr (JArr [launch, meetup])
   \<and> fst (deleteEvent backend_accepts (JStr ''e1'')) = Inr True
   \<and> mirror (snd (deleteEvent backend_accepts (JStr ''e1''))) = JsonText (JArr [meetup])"
proof -
  have n1: "net backend_rejects = Resolves (JObj [(''data'', JArr [])])
              # Rejects ''Request failed with status code 500'' # []"
    by (simp add: backend_rejects_def home_def)
  have m1: "mirror backend_rejects = JsonText (JArr [launch, meetup])"
    by (simp add: backend_rejects_def home_def)
  have h1: "backend_down home" by (simp add: home_def backend_down_def)
  have h2: "parse_mirror home = Inr (JArr [launch, meetup])"
    by (simp add: home_def parse_mirror_def)
  have h3: "\<forall>x\<in>set [launch, meetup]. x \<noteq> JNull" by (simp add: launch_def meetup_def)
  have n3: "net backend_accepts = Resolves (JObj [(''data'', JArr [])]) # Resolves (JObj []) # []"
    by (simp add: backend_accepts_def home_def)
  have g3: "fst (getAllEvents (backend_accepts\<lparr>net := []\<rparr>)) = Inr (JArr [launch, meetup])"
    using getAllEvents_rejected[of "[]" backend_accepts]
    by (simp add: backend_accepts_def home_def parse_mirror_def)
  have keep: "filter (\<lambda>e. \<not> has_id e (JStr ''e1'')) [launch, meetup] = [meetup]"
    by (simp add: has_id_def field_def launch_def meetup_def)
  have a: "fst (deleteEvent backend_rejects (JStr ''e1''))
             = Inl (AxiosError ''Request failed with status code 500'')
           \<and> mirror (snd (deleteEvent backend_rejects (JStr ''e1''))) = mirror backend_rejects"
    using deleteEvent_outcomes[where w = backend_rejects and ident = "JStr ''e1''"
        and probe = "JObj [(''data'', JArr [])]" and m = "''Request failed with status code 500''"
        and rest = "[]"] n1
    by blast
  have b: "fst (deleteEvent home (JStr ''e1'')) = Inr True
           \<and> mirror (snd (deleteEvent home (JStr ''e1'')))
               = JsonText (JArr (filter (\<lambda>e. \<not> has_id e (JStr ''e1'')) [launch, meetup]))"
    using deleteEvent_outcomes[where w = home and ident = "JStr ''e1''"
        and evs = "[launch, meetup]"] h1 h2 h3
    by blast
  have c: "fst (deleteEvent backend_accepts (JStr ''e1'')) = Inr True
           \<and> mirror (snd (deleteEvent backend_accepts (JStr ''e1'')))
               = JsonText (JArr (filter (\<lambda>e. \<not> has_id e (JStr ''e1'')) [launch, meetup]))"
    using deleteEvent_outcomes[where w = backend_accepts and ident = "JStr ''e1''"
        and probe = "JObj [(''data'', JArr [])]" and body = "JObj []" and rest = "[]"
        and evs = "[launch, meetup]"] n3 g3 h3
    by blast
  from a b c n1 m1 h1 h2 h3 n3 g3 show ?thesis unfolding keep by simp
qed

text \<open>The claim as the specification words it, that \<^verbatim>\<open>deleteEvent\<close> always succeeds
  whatever the remote delete does, fails when the backend answers the probe and rejects
  the delete request: the call throws and the entry stays in the mirror.\<close>

theorem deleteEvent_remote_failure_counterexample:
  "fst (deleteEvent backend_rejects (JStr ''e1''))
     = Inl (AxiosError ''Request failed with status code 500'')
   \<and> fst (deleteEvent backend_rejects (JStr ''e1'')) \<noteq> Inr True
   \<and> mirror (snd (deleteEvent backend_rejects (JStr ''e1''))) = JsonText (JArr [launch, meetup])
   \<and> has_id launch (JStr ''e1'')"
proof -
  have n1: "net backend_rejects = Resolves (JObj [(''data'', JArr [])])
              # Rejects ''Request failed with status code 500'' # []"
    by (simp add: backend_rejects_def home_def)
  have m1: "mirror backend_rejects = JsonText (JArr [launch, meetup])"
    by (simp add: backend_rejects_def home_def)
  have "has_id launch (JStr ''e1'')" by (simp add: has_id_def field_def launch_def)
  with deleteEvent_remote_rejects[OF n1, of "JStr ''e1''"] m1 show ?thesis by simp
qed

text \<open>
  C8. \<^verbatim>\<open>getAllEvents\<close> wraps its body in a handler that falls back to the mirror, so that
  a read never fails the caller. The handler parses the mirror again with no guard of
  its own: on a mirror whose text is not JSON the call throws a SyntaxError, whether the
  first exception came from the live path or from the mirror itself. On the same worlds
  \<^verbatim>\<open>getEventById\<close> returns null, and \<^verbatim>\<open>getCurrentUserId\<close> returns null on an
  identity text that is not JSON.
\<close>

theorem getAllEvents_throws_on_garbled_mirror:
  "live_path_raises garbled
   \<and> fst (getAllEvents garbled) = Inl SyntaxError
   \<and> backend_down (home\<lparr>mirror := BadText\<rparr>)
   \<and> fst (getAllEvents (home\<lparr>mirror := BadText\<rparr>)) = Inl SyntaxError
   \<and> fst (getEventById (home\<lparr>mirror := BadText\<rparr>) (JStr ''e1'')) = Inr (Some JNull)
   \<and> getCurrentUserId (home\<lparr>local_user := BadText\<rparr>) = Some JNull"
proof -
  have n: "net garbled = [Resolves (JObj [(''data'', JArr [])]),
                          Rejects ''Request failed with status code 500'']"
    by (simp add: garbled_def backend_rejects_def home_def)
  then have l: "live_path_raises garbled" by (simp add: live_path_raises_def)
  have "fst (getAllEvents garbled) = parse_mirror garbled"
    by (rule getAllEvents_fallback) (simp add: n)
  then have g: "fst (getAllEvents garbled) = Inl SyntaxError"
    by (simp add: parse_mirror_def garbled_def)
  have d: "backend_down (home\<lparr>mirror := BadText\<rparr>)" by (simp add: backend_down_def home_def)
  have a: "fst (getAllEvents (home\<lparr>mirror := BadText\<rparr>)) = Inl SyntaxError"
    by (simp add: getAllEvents_down[OF d] parse_mirror_def)
  have "getAllEvents (offline (home\<lparr>mirror := BadText\<rparr>))
          = (Inl SyntaxError, offline (offline (home\<lparr>mirror := BadText\<rparr>)))"
    by (simp add: getAllEvents_down[OF backend_down_offline[OF d]] parse_mirror_def)
  then have e: "fst (getEventById (home\<lparr>mirror := BadText\<rparr>) (JStr ''e1'')) = Inr (Some JNull)"
    unfolding getEventById_def by (simp add: check_down[OF d])
  have u: "getCurrentUserId (home\<lparr>local_user := BadText\<rparr>) = Some JNull"
    by (simp add: getCurrentUserId_def storedUser_def home_def)
  from l g d a e u show ?thesis by simp
qed

text \<open>
  C9. With a resolved identity, a creation input from which the row to insert can be
  built (it is not null), a store that accepts the insert, a backend that is unavailable
  and a mirror that holds a list, \<^verbatim>\<open>createEvent\<close> returns the persisted row, and
  \<^verbatim>\<open>getEventById\<close> on the identifier of that row, run at once on the world \<^verbatim>\<open>createEvent\<close>
  leaves, gives back that very record.
\<close>

theorem createEvent_then_getEventById:
  assumes "getCurrentUserId w = Some uid" and "truthy uid"
    and "insert_payload uid eventData = Inr payload"
    and "db w = InsertOk uuid ts # rest"
    and "backend_down w"
    and "parse_mirror w = Inr (JArr evs)"
  shows "\<exists>row ident w'. createEvent w eventData = (Inr row, w')
           \<and> row = persisted_row uuid ts payload
           \<and> field row ''id'' = Some ident
           \<and> fst (getEventById w' ident) = Inr (Some row)"
proof -
  let ?row = "persisted_row uuid ts payload"
  from createEvent_down[OF assms] obtain w' where
    c: "createEvent w eventData = (Inr ?row, w')"
       "mirror w' = JsonText (JArr (?row # evs))"
       "backend_down w'"
    by blast
  have i: "field ?row ''id'' = Some (JStr uuid)" by (rule persisted_row_id)
  then have h: "has_id ?row (JStr uuid)" by (simp add: has_id_def)
  have p: "parse_mirror w' = Inr (JArr ([] @ ?row # evs))" using c(2) by (simp add: parse_mirror_def)
  have "find_by_id ([] @ ?row # evs) (JStr uuid) = Inr (Some ?row)"
    by (rule find_by_id_first) (simp_all add: h)
  then have "fst (getEventById w' (JStr uuid)) = Inr (Some ?row)"
    by (simp add: getEventById_down[OF c(3) p] events_find_def)
  with c(1) i show ?thesis by blast
qed

theorem createEvent_then_getEventById_witness:
  "getCurrentUserId home = Some (JStr ''u1'') \<and> truthy (JStr ''u1'')
   \<and> insert_payload (JStr ''u1'') gala_input = Inr gala_payload
   \<and> db home = [InsertOk ''e3'' ''2025-10-26T07:26:38.000Z'']
   \<and> backend_down home
   \<and> parse_mirror home = Inr (JArr [launch, meetup])
   \<and> fst (createEvent home gala_input) = Inr gala
   \<and> field gala ''id'' = Some (JStr ''e3'')
   \<and> fst (getEventById (snd (createEvent home gala_input)) (JStr ''e3'')) = Inr (Some gala)"
proof -
  have h1: "getCurrentUserId home = Some (JStr ''u1'')"
    by (simp add: home_def getCurrentUserId_def storedUser_def get_prop_def field_def)
  have h2: "truthy (JStr ''u1'')" by simp
  have h3: "insert_payload (JStr ''u1'') gala_input = Inr gala_payload"
    by (simp add: insert_payload_def gala_input_def gala_payload_def field_def js_or_def)
  have h4: "db home = InsertOk ''e3'' ''2025-10-26T07:26:38.000Z'' # []" by (simp add: home_def)
  have h6: "backend_down home" by (simp add: home_def backend_down_def)
  have h7: "parse_mirror home = Inr (JArr [launch, meetup])" by (simp add: home_def parse_mirror_def)
  have i: "field gala ''id'' = Some (JStr ''e3'')" by (simp add: gala_def field_def)
  from createEvent_then_getEventById[OF h1 h2 h3 h4 h6 h7] obtain row ident w' where
    r: "createEvent home gala_input = (Inr row, w')"
       "row = persisted_row ''e3'' ''2025-10-26T07:26:38.000Z'' gala_payload"
       "field row ''id'' = Some ident"
       "fst (getEventById w' ident) = Inr (Some row)"
    by blast
  from r(2) have g: "row = gala" by (simp add: persisted_gala)
  with r(3) i have "ident = JStr ''e3''" by simp
  with r(1,4) g i h1 h2 h3 h4 h6 h7 show ?thesis by simp
qed

text \<open>
  C10, as the code has it. While the backend is unavailable and the mirror holds a list
  no entry of which carries the identifier, \<^verbatim>\<open>deleteEvent\<close> leaves the records of the
  mirror as they were: when no entry of the list is null it returns true and the mirror
  it writes holds the same records in the same order; when an entry is null the filter
  throws a TypeError on it and the mirror is not written.
\<close>

theorem deleteEvent_absent_noop:
  "backend_down w \<Longrightarrow> parse_mirror w = Inr (JArr evs) \<Longrightarrow>
   \<forall>x\<in>set evs. \<not> has_id x ident \<Longrightarrow>
   fst (deleteEvent w ident) = (if JNull \<in> set evs then Inl TypeError else Inr True)
   \<and> mirror (snd (deleteEvent w ident))
       = (if JNull \<in> set evs then mirror w else JsonText (JArr evs))
   \<and> parse_mirror (snd (deleteEvent w ident)) = parse_mirror w"
proof -
  assume d: "backend_down w" and p: "parse_mirror w = Inr (JArr evs)"
    and n: "\<forall>x\<in>set evs. \<not> has_id x ident"
  show ?thesis
    by (simp add: deleteEvent_down[OF d p] filter_out_id_null filter_absent[OF n] p)
qed

theorem deleteEvent_absent_noop_witness:
  "backend_down home
   \<and> parse_mirror home = Inr (JArr [launch, meetup])
   \<and> list_all (\<lambda>x. \<not> has_id x (JStr ''e9'')) [launch, meetup]
   \<and> JNull \<notin> set [launch, meetup]
   \<and> fst (deleteEvent home (JStr ''e9'')) = Inr True
   \<and> mirror (snd (deleteEvent home (JStr ''e9''))) = JsonText (JArr [launch, meetup])
   \<and> parse_mirror (snd (deleteEvent home (JStr ''e9''))) = Inr (JArr [launch, meetup])
   \<and> backend_down after_live_update
   \<and> parse_mirror after_live_update = Inr (JArr [JNull, meetup])
   \<and> list_all (\<lambda>x. \<not> has_id x (JStr ''e9'')) [JNull, meetup]
   \<and> fst (deleteEvent after_live_update (JStr ''e9'')) = Inl TypeError
   \<and> mirror (snd (deleteEvent after_live_update (JStr ''e9''))) = JsonText (JArr [JNull, meetup])"
proof -
  have h1: "backend_down home" by (simp add: home_def backend_down_def)
  have h2: "parse_mirror home = Inr (JArr [launch, meetup])"
    by (simp add: home_def parse_mirror_def)
  have h3: "\<forall>x\<in>set [launch, meetup]. \<not> has_id x (JStr ''e9'')"
    by (simp add: has_id_def field_def launch_def meetup_def)
  have h4: "JNull \<notin> set [launch, meetup]" by (simp add: launch_def meetup_def)
  have n3: "\<forall>x\<in>set [JNull, meetup]. \<not> has_id x (JStr ''e9'')"
    by (simp add: has_id_def field_def meetup_def)
  have a: "fst (deleteEvent home (JStr ''e9'')) = Inr True
     \<and> mirror (snd (deleteEvent home (JStr ''e9''))) = JsonText (JArr [launch, meetup])
     \<and> parse_mirror (snd (deleteEvent home (JStr ''e9''))) = parse_mirror home"
    using deleteEvent_absent_noop[OF h1 h2 h3] h4 by simp
  have b: "fst (deleteEvent after_live_update (JStr ''e9'')) = Inl TypeError
     \<and> mirror (snd (deleteEvent after_live_update (JStr ''e9''))) = mirror after_live_update"
    using deleteEvent_absent_noop[OF after_live_update_down after_live_update_parsed n3] by simp
  from a b h1 h2 h3 h4 n3 after_live_update_down after_live_update_parsed after_live_update_mirror
  show ?thesis by simp
qed

text \<open>The claim as the specification words it, that deleting an absent identifier still
  returns true, fails on the mirror the live update leaves: the filter throws on its
  null entry and the call ends in that error.\<close>

theorem deleteEvent_null_entry_counterexample:
  "mirror after_live_update = JsonText (JArr [JNull, meetup])
   \<and> backend_down after_live_update
   \<and> \<not> has_id JNull (JStr ''e9'') \<and> \<not> has_id meetup (JStr ''e9'')
   \<and> fst (deleteEvent after_live_update (JStr ''e9'')) = Inl TypeError
   \<and> fst (deleteEvent after_live_update (JStr ''e9'')) \<noteq> Inr True"
proof -
  have h: "\<not> has_id JNull (JStr ''e9'')" "\<not> has_id meetup (JStr ''e9'')"
    by (simp_all add: has_id_def field_def meetup_def)
  have f: "filter_out_id [JNull, meetup] (JStr ''e9'') = Inl TypeError"
    by (simp add: get_prop_def)
  have "fst (deleteEvent after_live_update (JStr ''e9'')) = Inl TypeError"
    unfolding deleteEvent_down[OF after_live_update_down after_live_update_parsed] f by simp
  with h after_live_update_mirror after_live_update_down show ?thesis by simp
qed

end
